theory Spec2Isabelle
  imports Main "HOL-Library.Word"
begin

section \<open>Banner commands of the Azure DevOps CLI extension\<close>

text \<open>
  A shallow embedding of \<^verbatim>\<open>azext_devops/dev/admin/banner.py\<close>. The module holds
  five commands (\<^verbatim>\<open>banner_list\<close>, \<^verbatim>\<open>banner_show\<close>, \<^verbatim>\<open>banner_add\<close>,
  \<^verbatim>\<open>banner_update\<close>, \<^verbatim>\<open>banner_remove\<close>) and the helper \<^verbatim>\<open>_get_banner_key\<close>.
  Everything the commands do to the remote service goes through three functions and two
  constants imported from the sibling module \<^verbatim>\<open>setting\<close>, and the date is parsed by
  \<^verbatim>\<open>convert_date_string_to_iso8601\<close>; none of these is defined in \<^verbatim>\<open>banner.py\<close>, so
  they are parameters of the embedding.
\<close>

subsection \<open>Values, errors and the imported module\<close>

text \<open>
  The three exception classes the module names. A raise is the value \<open>Inl e\<close>; a normal
  return is \<open>Inr v\<close>.
\<close>

datatype error =
    ValueError string
  | VstsServiceError string
  | CLIError string

text \<open>
  The Python values that end up inside a banner entry: a string, or \<^verbatim>\<open>None\<close>. An
  entry is a \<^verbatim>\<open>dict\<close> from field names to such values, and both the listing returned by
  the service and the \<^verbatim>\<open>entries\<close> argument of a write are dicts from keys to entries.
\<close>

datatype pyval = PyNone | PyStr string

type_synonym entry = "string \<rightharpoonup> pyval"

type_synonym entries = "string \<rightharpoonup> entry"

text \<open>
  A call of an imported function runs against the remote service, whose state has the
  abstract type \<open>'s\<close>: it takes the state and returns a result or an exception together
  with the state afterwards.
\<close>

type_synonym ('s, 'a) call_result = "(error + 'a) \<times> 's"

text \<open>
  \<^verbatim>\<open>from .setting import setting_add_or_update, setting_list, setting_remove,
  GLOBAL_MESSAGE_BANNERS_KEY, USER_SCOPE_HOST\<close>. The arguments of each function are in the
  order \<^verbatim>\<open>banner.py\<close> writes them at its call sites; \<^verbatim>\<open>devops_organization\<close> and
  \<^verbatim>\<open>detect\<close> are the two optional strings every command passes through.
\<close>

record 's setting =
  setting_list ::
    "string \<Rightarrow> string \<Rightarrow> string option \<Rightarrow> string option \<Rightarrow> 's \<Rightarrow> ('s, entries) call_result"
  setting_add_or_update ::
    "entries \<Rightarrow> string \<Rightarrow> string option \<Rightarrow> string option \<Rightarrow> 's \<Rightarrow> ('s, unit) call_result"
  setting_remove ::
    "string \<Rightarrow> string \<Rightarrow> string option \<Rightarrow> string option \<Rightarrow> 's \<Rightarrow> ('s, unit) call_result"
  GLOBAL_MESSAGE_BANNERS_KEY :: string
  USER_SCOPE_HOST :: string

text \<open>
  \<^verbatim>\<open>convert_date_string_to_iso8601(value=..., argument=...)\<close>: the date string on
  success, an exception on a string it cannot parse.
\<close>

type_synonym date_normalizer = "string \<Rightarrow> string \<Rightarrow> error + string"

subsection \<open>The commands\<close>

text \<open>
  Every command body is wrapped in
  \<^verbatim>\<open>try: ... except VstsServiceError as ex: raise CLIError(ex)\<close>:
  a \<^verbatim>\<open>VstsServiceError\<close> leaves as a \<^verbatim>\<open>CLIError\<close> with the same message, any other
  exception and any normal result pass unchanged.
\<close>

definition except_VstsServiceError :: "('s, 'a) call_result \<Rightarrow> ('s, 'a) call_result" where
  "except_VstsServiceError r =
     (case r of
        (Inl (VstsServiceError ex), s) \<Rightarrow> (Inl (CLIError ex), s)
      | (Inl e, s) \<Rightarrow> (Inl e, s)
      | (Inr v, s) \<Rightarrow> (Inr v, s))"

text \<open>\<^verbatim>\<open>_get_banner_key(message_id)\<close> (the leading underscore is dropped).\<close>

definition get_banner_key :: "('s, 'z) setting_scheme \<Rightarrow> string \<Rightarrow> string" where
  "get_banner_key M message_id = GLOBAL_MESSAGE_BANNERS_KEY M @ ''/'' @ message_id"

definition banner_list ::
  "('s, 'z) setting_scheme \<Rightarrow> string option \<Rightarrow> string option \<Rightarrow> 's \<Rightarrow> ('s, entries) call_result"
where
  "banner_list M devops_organization detect s =
     except_VstsServiceError
       (setting_list M ''host'' (GLOBAL_MESSAGE_BANNERS_KEY M) devops_organization detect s)"

definition banner_show ::
  "('s, 'z) setting_scheme \<Rightarrow> string \<Rightarrow> string option \<Rightarrow> string option \<Rightarrow> 's
     \<Rightarrow> ('s, entries) call_result"
where
  "banner_show M message_id devops_organization detect s =
     except_VstsServiceError
       (case setting_list M ''host'' (GLOBAL_MESSAGE_BANNERS_KEY M) devops_organization detect s of
          (Inl ex, s1) \<Rightarrow> (Inl ex, s1)
        | (Inr existing_entries, s1) \<Rightarrow>
            (case existing_entries message_id of
               None \<Rightarrow>
                 (Inl (ValueError (''The following banner was not found: '' @ message_id)), s1)
             | Some existing_entry \<Rightarrow> (Inr [message_id \<mapsto> existing_entry], s1)))"

text \<open>
  \<^verbatim>\<open>banner_add\<close>. The argument \<open>uuid4_str\<close> is the value of \<^verbatim>\<open>str(uuid.uuid4())\<close>
  in this call, which the code reads only when \<^verbatim>\<open>message_id\<close> is \<^verbatim>\<open>None\<close> or
  \<^verbatim>\<open>''\<close>.
\<close>

definition banner_add ::
  "('s, 'z) setting_scheme \<Rightarrow> date_normalizer \<Rightarrow> string \<Rightarrow> string \<Rightarrow> string option
     \<Rightarrow> string option \<Rightarrow> string option \<Rightarrow> string option \<Rightarrow> string option \<Rightarrow> 's
     \<Rightarrow> ('s, entries) call_result"
where
  "banner_add M convert_date_string_to_iso8601 uuid4_str
       message banner_type message_id expiration devops_organization detect s =
     except_VstsServiceError
       (case (case expiration of
                Some e \<Rightarrow> map_sum id Some (convert_date_string_to_iso8601 e ''expiration'')
              | None \<Rightarrow> Inr None) of
          Inl ex \<Rightarrow> (Inl ex, s)
        | Inr expiration_iso8601 \<Rightarrow>
            (let message_id1 =
                   (case message_id of
                      None \<Rightarrow> uuid4_str
                    | Some i \<Rightarrow> if i = '''' then uuid4_str else i);
                 setting_key = get_banner_key M message_id1;
                 entry0 = [''message'' \<mapsto> PyStr message];
                 entry1 = (case banner_type of
                             Some t \<Rightarrow> entry0(''level'' \<mapsto> PyStr t)
                           | None \<Rightarrow> entry0);
                 entry2 = (case expiration_iso8601 of
                             Some d \<Rightarrow> entry1(''expirationDate'' \<mapsto> PyStr d)
                           | None \<Rightarrow> entry1)
             in (case setting_add_or_update M [setting_key \<mapsto> entry2] (USER_SCOPE_HOST M)
                        devops_organization detect s of
                   (Inl ex, s1) \<Rightarrow> (Inl ex, s1)
                 | (Inr u, s1) \<Rightarrow> (Inr [message_id1 \<mapsto> entry2], s1))))"

text \<open>
  \<^verbatim>\<open>banner_update\<close>. The dict literal the code starts from is
  \<^verbatim>\<open>{"message": message}\<close> with \<^verbatim>\<open>message\<close> as passed, so it holds \<^verbatim>\<open>None\<close>
  under \<^verbatim>\<open>"message"\<close> when no message is supplied; \<open>py_of\<close> is that value.
\<close>

definition py_of :: "string option \<Rightarrow> pyval" where
  "py_of x = (case x of None \<Rightarrow> PyNone | Some v \<Rightarrow> PyStr v)"

definition banner_update ::
  "('s, 'z) setting_scheme \<Rightarrow> date_normalizer \<Rightarrow> string option \<Rightarrow> string option \<Rightarrow> string
     \<Rightarrow> string option \<Rightarrow> string option \<Rightarrow> string option \<Rightarrow> 's \<Rightarrow> ('s, entries) call_result"
where
  "banner_update M convert_date_string_to_iso8601
       message banner_type message_id expiration devops_organization detect s =
     except_VstsServiceError
       (if message = None \<and> banner_type = None \<and> expiration = None then
          (Inl (ValueError (''At least one of the following arguments need to be supplied: ''
                            @ ''--message, --type, '' @ ''--expiration.'')), s)
        else
          (case (case expiration of
                   Some e \<Rightarrow> map_sum id Some (convert_date_string_to_iso8601 e ''expiration'')
                 | None \<Rightarrow> Inr None) of
             Inl ex \<Rightarrow> (Inl ex, s)
           | Inr expiration_iso8601 \<Rightarrow>
               (case setting_list M ''host'' (GLOBAL_MESSAGE_BANNERS_KEY M)
                       devops_organization detect s of
                  (Inl ex, s1) \<Rightarrow> (Inl ex, s1)
                | (Inr existing_entries, s1) \<Rightarrow>
                    (case existing_entries message_id of
                       None \<Rightarrow>
                         (Inl (ValueError (''The following banner was not found: ''
                                           @ message_id)), s1)
                     | Some existing_entry \<Rightarrow>
                         (let setting_key = get_banner_key M message_id;
                              entry0 = [''message'' \<mapsto> py_of message];
                              entry1 =
                                (case message of
                                   Some m \<Rightarrow> entry0(''message'' \<mapsto> PyStr m)
                                 | None \<Rightarrow>
                                     (case existing_entry ''message'' of
                                        Some v \<Rightarrow> entry0(''message'' \<mapsto> v)
                                      | None \<Rightarrow> entry0));
                              entry2 =
                                (case banner_type of
                                   Some t \<Rightarrow> entry1(''level'' \<mapsto> PyStr t)
                                 | None \<Rightarrow>
                                     (case existing_entry ''level'' of
                                        Some v \<Rightarrow> entry1(''level'' \<mapsto> v)
                                      | None \<Rightarrow> entry1));
                              entry3 =
                                (case expiration_iso8601 of
                                   Some d \<Rightarrow> entry2(''expirationDate'' \<mapsto> PyStr d)
                                 | None \<Rightarrow>
                                     (case existing_entry ''expirationDate'' of
                                        Some v \<Rightarrow> entry2(''expirationDate'' \<mapsto> v)
                                      | None \<Rightarrow> entry2))
                          in (case setting_add_or_update M [setting_key \<mapsto> entry3]
                                     (USER_SCOPE_HOST M) devops_organization detect s1 of
                                (Inl ex, s2) \<Rightarrow> (Inl ex, s2)
                              | (Inr u, s2) \<Rightarrow> (Inr [message_id \<mapsto> entry3], s2)))))))"

definition banner_remove ::
  "('s, 'z) setting_scheme \<Rightarrow> string \<Rightarrow> string option \<Rightarrow> string option \<Rightarrow> 's
     \<Rightarrow> ('s, unit) call_result"
where
  "banner_remove M message_id devops_organization detect s =
     except_VstsServiceError
       (let setting_key = get_banner_key M message_id
        in setting_remove M setting_key ''host'' devops_organization detect s)"

subsection \<open>The generated identifier\<close>

text \<open>
  \<^verbatim>\<open>str(uuid.uuid4())\<close> is a call into Python's standard library, whose \<^verbatim>\<open>uuid\<close>
  module does the following. \<^verbatim>\<open>uuid4()\<close> is \<^verbatim>\<open>UUID(bytes=os.urandom(16), version=4)\<close>;
  the constructor reads the 16 bytes as one 128-bit integer and, a version being given,
  runs
  \<^verbatim>\<open>int &= ~(0xc000 << 48); int |= 0x8000 << 48; int &= ~(0xf000 << 64); int |= version << 76\<close>;
  \<^verbatim>\<open>__str__\<close> formats that integer with \<^verbatim>\<open>'%032x'\<close> and joins the slices
  \<^verbatim>\<open>hex[:8], hex[8:12], hex[12:16], hex[16:20], hex[20:]\<close> with hyphens. The 128 random
  bits are the argument.
\<close>

unbundle bit_operations_syntax

definition uuid4 :: "128 word \<Rightarrow> 128 word" where
  "uuid4 random =
     (((random AND NOT (push_bit 48 0xc000)) OR push_bit 48 0x8000)
        AND NOT (push_bit 64 0xf000)) OR push_bit 76 4"

definition hex_digit :: "nat \<Rightarrow> char" where
  "hex_digit n = ''0123456789abcdef'' ! n"

definition hex032 :: "128 word \<Rightarrow> string" where
  "hex032 w = map (\<lambda>i. hex_digit (unat (drop_bit (4 * (31 - i)) w AND 0xf))) [0..<32]"

definition uuid_str :: "128 word \<Rightarrow> string" where
  "uuid_str w =
     (let hex = hex032 w
      in take 8 hex @ ''-'' @ take 4 (drop 8 hex) @ ''-'' @ take 4 (drop 12 hex) @ ''-''
         @ take 4 (drop 16 hex) @ ''-'' @ drop 20 hex)"

text \<open>The bits of the random integer that the constructor leaves as drawn.\<close>

definition uuid4_random_bits :: "128 word" where
  "uuid4_random_bits = NOT (push_bit 48 0xc000 OR push_bit 64 0xf000)"

subsection \<open>Recording the calls a command makes\<close>

text \<open>
  To speak about which calls a command makes, and in which order, the imported module is
  wrapped: \<open>traced M\<close> behaves as \<open>M\<close> does and appends every call, with its arguments, to
  a log kept beside the service's state. The commands are the same definitions, run on
  \<open>traced M\<close>.
\<close>

datatype call =
    Call_setting_list string string "string option" "string option"
  | Call_setting_add_or_update entries string "string option" "string option"
  | Call_setting_remove string string "string option" "string option"

definition traced :: "('s, 'z) setting_scheme \<Rightarrow> ('s \<times> call list) setting" where
  "traced M =
     \<lparr> setting_list = (\<lambda>user_scope key org detect (s, log).
          (case setting_list M user_scope key org detect s of
             (r, s1) \<Rightarrow> (r, (s1, log @ [Call_setting_list user_scope key org detect])))),
       setting_add_or_update = (\<lambda>es user_scope org detect (s, log).
          (case setting_add_or_update M es user_scope org detect s of
             (r, s1) \<Rightarrow> (r, (s1, log @ [Call_setting_add_or_update es user_scope org detect])))),
       setting_remove = (\<lambda>key user_scope org detect (s, log).
          (case setting_remove M key user_scope org detect s of
             (r, s1) \<Rightarrow> (r, (s1, log @ [Call_setting_remove key user_scope org detect])))),
       GLOBAL_MESSAGE_BANNERS_KEY = GLOBAL_MESSAGE_BANNERS_KEY M,
       USER_SCOPE_HOST = USER_SCOPE_HOST M \<rparr>"

subsection \<open>A settings service, from its contract\<close>

text \<open>The state of the spec's Settings Store: the value kept under a scope and a key.\<close>

type_synonym store = "string \<times> string \<rightharpoonup> entry"

text \<open>
  Modelled from the spec: the module \<^verbatim>\<open>setting\<close> (\<^verbatim>\<open>setting_list\<close>,
  \<^verbatim>\<open>setting_add_or_update\<close>, \<^verbatim>\<open>setting_remove\<close>, \<^verbatim>\<open>USER_SCOPE_HOST\<close>) is missing from
  the sources. The spec's Settings Store keeps one value per scope and key; \<open>list\<close>
  returns the entries below a key, each under its sub-key suffix (the part after
  \<open>key/\<close>, which the spec's data model says is the banner's id); \<open>addOrUpdate\<close>
  overwrites the given keys; \<open>remove\<close> deletes one key; the scope of the banners is
  \<^verbatim>\<open>host\<close>. The service is reachable, so no call raises. The namespace prefix is a
  parameter.
\<close>

definition spec_setting :: "string \<Rightarrow> store setting" where
  "spec_setting prefix =
     \<lparr> setting_list = (\<lambda>user_scope key org detect st.
          (Inr (\<lambda>sub. st (user_scope, key @ ''/'' @ sub)), st)),
       setting_add_or_update = (\<lambda>es user_scope org detect st.
          (Inr (), (\<lambda>(sc, k). if sc = user_scope
                               then (case es k of Some v \<Rightarrow> Some v | None \<Rightarrow> st (sc, k))
                               else st (sc, k)))),
       setting_remove = (\<lambda>key user_scope org detect st.
          (Inr (), st((user_scope, key) := None))),
       GLOBAL_MESSAGE_BANNERS_KEY = prefix,
       USER_SCOPE_HOST = ''host'' \<rparr>"

subsection \<open>Vocabulary of the properties\<close>

text \<open>
  The value the variable \<^verbatim>\<open>expiration_iso8601\<close> of \<^verbatim>\<open>banner_add\<close> and
  \<^verbatim>\<open>banner_update\<close> gets from the \<^verbatim>\<open>expiration\<close> argument: \<^verbatim>\<open>None\<close> when the
  argument is omitted, the normalizer's string when it parses, the normalizer's exception
  otherwise.
\<close>

definition normalized :: "date_normalizer \<Rightarrow> string option \<Rightarrow> error + string option" where
  "normalized conv expiration =
     (case expiration of
        None \<Rightarrow> Inr None
      | Some e \<Rightarrow> (case conv e ''expiration'' of Inl ex \<Rightarrow> Inl ex | Inr d \<Rightarrow> Inr (Some d)))"

text \<open>
  The entry that has the given value under \<^verbatim>\<open>message\<close>, \<^verbatim>\<open>level\<close> and
  \<^verbatim>\<open>expirationDate\<close> (a field whose argument is \<open>None\<close> is absent) and no other key.
\<close>

definition entry_with :: "pyval option \<Rightarrow> pyval option \<Rightarrow> pyval option \<Rightarrow> entry" where
  "entry_with msg lvl expd =
     (\<lambda>k. if k = ''message'' then msg
          else if k = ''level'' then lvl
          else if k = ''expirationDate'' then expd
          else None)"

text \<open>The id \<^verbatim>\<open>banner_add\<close> works with: the one supplied, or the generated one.\<close>

definition effective_id :: "string \<Rightarrow> string option \<Rightarrow> string" where
  "effective_id uuid4_str message_id =
     (case message_id of None \<Rightarrow> uuid4_str | Some i \<Rightarrow> if i = [] then uuid4_str else i)"

text \<open>
  The shape of a stored banner: a mapping with no key besides the three. A call is well
  shaped when, if it is a write, every value it writes has that shape.
\<close>

definition banner_shaped :: "entry \<Rightarrow> bool" where
  "banner_shaped e = (dom e \<subseteq> {''message'', ''level'', ''expirationDate''})"

definition writes_banner_shaped :: "call \<Rightarrow> bool" where
  "writes_banner_shaped c =
     (case c of
        Call_setting_list user_scope key org detect \<Rightarrow> True
      | Call_setting_add_or_update es user_scope org detect \<Rightarrow> ran es \<subseteq> Collect banner_shaped
      | Call_setting_remove key user_scope org detect \<Rightarrow> True)"

text \<open>
  The draw that agrees with \<open>r\<close> on the bits \<^verbatim>\<open>uuid4\<close> keeps and carries \<open>a\<close> and \<open>b\<close> in
  the two fields (bits 62 to 63, bits 76 to 79) that \<^verbatim>\<open>uuid4\<close> overwrites.
\<close>

definition refill :: "128 word \<Rightarrow> nat \<times> nat \<Rightarrow> 128 word" where
  "refill r = (\<lambda>(a, b). (r AND uuid4_random_bits) OR push_bit 62 (word_of_nat a)
                         OR push_bit 76 (word_of_nat b))"

subsection \<open>Sample inputs\<close>

text \<open>
  Concrete inputs for the examples below: a normalizer that knows one date, and a service
  state under the namespace \<^verbatim>\<open>Banners\<close> that holds a banner \<^verbatim>\<open>m1\<close> with a message and a
  level, and an entry \<^verbatim>\<open>b0\<close> that has a level and no message.
\<close>

definition sample_normalizer :: date_normalizer where
  "sample_normalizer v argument =
     (if v = ''2030-01-01'' then Inr ''2030-01-01T00:00:00''
      else Inl (ValueError (''The --'' @ argument @ '' argument is not a date.'')))"

definition sample_store :: store where
  "sample_store =
     [(''host'', ''Banners/m1'') \<mapsto>
        [''message'' \<mapsto> PyStr ''System maintenance at 10pm'', ''level'' \<mapsto> PyStr ''warning''],
      (''host'', ''Banners/b0'') \<mapsto> [''level'' \<mapsto> PyStr ''info'']]"

section \<open>Properties\<close>

subsection \<open>Auxiliary facts\<close>

lemma except_VstsServiceError_simps [simp]:
  "except_VstsServiceError (Inr v, s) = (Inr v, s)"
  "except_VstsServiceError (Inl (ValueError m), s) = (Inl (ValueError m), s)"
  "except_VstsServiceError (Inl (CLIError m), s) = (Inl (CLIError m), s)"
  "except_VstsServiceError (Inl (VstsServiceError m), s) = (Inl (CLIError m), s)"
  by (simp_all add: except_VstsServiceError_def)

lemma snd_except_VstsServiceError [simp]: "snd (except_VstsServiceError r) = snd r"
  by (cases r) (auto simp: except_VstsServiceError_def split: sum.splits error.splits)

lemma traced_simps [simp]:
  "setting_list (traced M) user_scope key org detect (s, log) =
     (case setting_list M user_scope key org detect s of
        (r, s1) \<Rightarrow> (r, (s1, log @ [Call_setting_list user_scope key org detect])))"
  "setting_add_or_update (traced M) es user_scope org detect (s, log) =
     (case setting_add_or_update M es user_scope org detect s of
        (r, s1) \<Rightarrow> (r, (s1, log @ [Call_setting_add_or_update es user_scope org detect])))"
  "setting_remove (traced M) key user_scope org detect (s, log) =
     (case setting_remove M key user_scope org detect s of
        (r, s1) \<Rightarrow> (r, (s1, log @ [Call_setting_remove key user_scope org detect])))"
  "GLOBAL_MESSAGE_BANNERS_KEY (traced M) = GLOBAL_MESSAGE_BANNERS_KEY M"
  "USER_SCOPE_HOST (traced M) = USER_SCOPE_HOST M"
  by (simp_all add: traced_def)

lemma spec_setting_simps [simp]:
  "setting_list (spec_setting p) user_scope key org detect st =
     (Inr (\<lambda>sub. st (user_scope, key @ ''/'' @ sub)), st)"
  "setting_remove (spec_setting p) key user_scope org detect st =
     (Inr (), st((user_scope, key) := None))"
  "GLOBAL_MESSAGE_BANNERS_KEY (spec_setting p) = p"
  "USER_SCOPE_HOST (spec_setting p) = ''host''"
  by (simp_all add: spec_setting_def)

lemma spec_setting_write [simp]:
  "fst (setting_add_or_update (spec_setting p) es user_scope org detect st) = Inr ()"
  by (simp add: spec_setting_def)

lemma get_banner_key_traced [simp]: "get_banner_key (traced M) i = get_banner_key M i"
  by (simp add: get_banner_key_def)

lemma get_banner_key_neq: "get_banner_key M i \<noteq> i"
proof
  assume "get_banner_key M i = i"
  then have "length (get_banner_key M i) = length i" by simp
  then show False by (simp add: get_banner_key_def)
qed

lemma entry_with_eq:
  "[''message'' \<mapsto> a] = entry_with (Some a) None None"
  "(entry_with m l x)(''message'' \<mapsto> a) = entry_with (Some a) l x"
  "(entry_with m l x)(''level'' \<mapsto> b) = entry_with m (Some b) x"
  "(entry_with m l x)(''expirationDate'' \<mapsto> c) = entry_with m l (Some c)"
  by (auto simp: entry_with_def fun_eq_iff)

lemma entry_with_apply [simp]:
  "entry_with m l x ''message'' = m"
  "entry_with m l x ''level'' = l"
  "entry_with m l x ''expirationDate'' = x"
  by (simp_all add: entry_with_def)

lemma banner_shaped_entry_with: "banner_shaped (entry_with m l x)"
  by (auto simp: banner_shaped_def entry_with_def dom_def)

lemma normalized_inline:
  assumes "normalized conv expiration = Inr d"
  shows "(case expiration of
            Some e \<Rightarrow> map_sum id Some (conv e ''expiration'')
          | None \<Rightarrow> Inr None) = Inr d"
    and "(d = None) = (expiration = None)"
  using assms by (auto simp: normalized_def split: option.splits sum.splits)

text \<open>What \<^verbatim>\<open>banner_add\<close> does once the expiration has been normalized.\<close>

lemma banner_add_run:
  assumes "normalized conv expiration = Inr d"
    and "setting_add_or_update M
           [get_banner_key M (effective_id u message_id) \<mapsto>
              entry_with (Some (PyStr message)) (map_option PyStr banner_type) (map_option PyStr d)]
           (USER_SCOPE_HOST M) org detect s = (r, s1)"
  shows "banner_add M conv u message banner_type message_id expiration org detect s =
     except_VstsServiceError
       (case r of
          Inl ex \<Rightarrow> Inl ex
        | Inr w \<Rightarrow>
            Inr [effective_id u message_id \<mapsto>
                  entry_with (Some (PyStr message)) (map_option PyStr banner_type)
                    (map_option PyStr d)], s1)"
  using assms
  by (cases expiration; cases banner_type; cases message_id; cases r)
     (auto simp: banner_add_def normalized_def effective_id_def entry_with_eq Let_def
           split: sum.splits)

text \<open>
  What \<^verbatim>\<open>banner_update\<close> does once the listing holds the id: the entry it writes and
  returns. The message is the supplied one, else the stored one, else \<^verbatim>\<open>None\<close> (the
  value the dict literal starts with); the other two fields are the supplied value, else
  the stored one, else absent.
\<close>

lemma banner_update_run:
  assumes "message \<noteq> None \<or> banner_type \<noteq> None \<or> expiration \<noteq> None"
    and "normalized conv expiration = Inr d"
    and "setting_list M ''host'' (GLOBAL_MESSAGE_BANNERS_KEY M) org detect s =
           (Inr existing_entries, s1)"
    and "existing_entries message_id = Some existing_entry"
    and "entry = entry_with
           (Some (case message of
                    Some m \<Rightarrow> PyStr m
                  | None \<Rightarrow> (case existing_entry ''message'' of Some v \<Rightarrow> v | None \<Rightarrow> PyNone)))
           (case banner_type of Some t \<Rightarrow> Some (PyStr t) | None \<Rightarrow> existing_entry ''level'')
           (case d of Some x \<Rightarrow> Some (PyStr x) | None \<Rightarrow> existing_entry ''expirationDate'')"
    and "setting_add_or_update M [get_banner_key M message_id \<mapsto> entry]
           (USER_SCOPE_HOST M) org detect s1 = (r, s2)"
  shows "banner_update M conv message banner_type message_id expiration org detect s =
     except_VstsServiceError
       (case r of Inl ex \<Rightarrow> Inl ex | Inr w \<Rightarrow> Inr [message_id \<mapsto> entry], s2)"
proof -
  note e = normalized_inline [OF assms(2)]
  have n: "d = None \<Longrightarrow> expiration = None"
    using e(2) by simp
  show ?thesis
    using assms(1,3,4,6) n unfolding assms(5)
    by (cases message; cases banner_type; cases d; cases r;
        cases "existing_entry ''message''"; cases "existing_entry ''level''";
        cases "existing_entry ''expirationDate''")
       (auto simp: banner_update_def e(1) entry_with_eq py_of_def Let_def)
qed

lemma banner_update_absent:
  assumes "message \<noteq> None \<or> banner_type \<noteq> None \<or> expiration \<noteq> None"
    and "normalized conv expiration = Inr d"
    and "setting_list M ''host'' (GLOBAL_MESSAGE_BANNERS_KEY M) org detect s =
           (Inr existing_entries, s1)"
    and "existing_entries message_id = None"
  shows "banner_update M conv message banner_type message_id expiration org detect s =
           (Inl (ValueError (''The following banner was not found: '' @ message_id)), s1)"
  using assms(1,3,4) by (auto simp: banner_update_def normalized_inline(1) [OF assms(2)])

lemma banner_update_log:
  assumes "message \<noteq> None \<or> banner_type \<noteq> None \<or> expiration \<noteq> None"
    and "normalized conv expiration = Inr d"
    and "setting_list M ''host'' (GLOBAL_MESSAGE_BANNERS_KEY M) org detect s =
           (Inr existing_entries, s1)"
    and "existing_entries message_id = Some existing_entry"
  shows "\<exists>entry. snd (snd (banner_update (traced M) conv message banner_type message_id expiration
                                   org detect (s, log))) =
                 log @ [Call_setting_list ''host'' (GLOBAL_MESSAGE_BANNERS_KEY M) org detect,
                        Call_setting_add_or_update [get_banner_key M message_id \<mapsto> entry]
                          (USER_SCOPE_HOST M) org detect]"
proof -
  define entry where "entry = entry_with
           (Some (case message of
                    Some m \<Rightarrow> PyStr m
                  | None \<Rightarrow> (case existing_entry ''message'' of Some v \<Rightarrow> v | None \<Rightarrow> PyNone)))
           (case banner_type of Some t \<Rightarrow> Some (PyStr t) | None \<Rightarrow> existing_entry ''level'')
           (case d of Some x \<Rightarrow> Some (PyStr x) | None \<Rightarrow> existing_entry ''expirationDate'')"
  obtain r s2 where w: "setting_add_or_update M [get_banner_key M message_id \<mapsto> entry]
           (USER_SCOPE_HOST M) org detect s1 = (r, s2)"
    by (cases "setting_add_or_update M [get_banner_key M message_id \<mapsto> entry]
           (USER_SCOPE_HOST M) org detect s1")
  have l: "setting_list (traced M) ''host'' (GLOBAL_MESSAGE_BANNERS_KEY (traced M)) org detect
             (s, log) =
           (Inr existing_entries,
            (s1, log @ [Call_setting_list ''host'' (GLOBAL_MESSAGE_BANNERS_KEY M) org detect]))"
    using assms(3) by simp
  have w': "setting_add_or_update (traced M) [get_banner_key (traced M) message_id \<mapsto> entry]
              (USER_SCOPE_HOST (traced M)) org detect
              (s1, log @ [Call_setting_list ''host'' (GLOBAL_MESSAGE_BANNERS_KEY M) org detect]) =
            (r, (s2, log @ [Call_setting_list ''host'' (GLOBAL_MESSAGE_BANNERS_KEY M) org detect,
                            Call_setting_add_or_update [get_banner_key M message_id \<mapsto> entry]
                              (USER_SCOPE_HOST M) org detect]))"
    using w by simp
  show ?thesis
    using banner_update_run [OF assms(1,2) l assms(4) entry_def w'] by auto
qed

lemma banner_add_log:
  assumes "normalized conv expiration = Inr d"
  shows "\<exists>entry. snd (snd (banner_add (traced M) conv u message banner_type message_id expiration
                                org detect (s, log))) =
              log @ [Call_setting_add_or_update
                       [get_banner_key M (effective_id u message_id) \<mapsto> entry]
                       (USER_SCOPE_HOST M) org detect]"
proof -
  define entry where
    "entry = entry_with (Some (PyStr message)) (map_option PyStr banner_type) (map_option PyStr d)"
  obtain r s1 where w: "setting_add_or_update M
       [get_banner_key M (effective_id u message_id) \<mapsto> entry] (USER_SCOPE_HOST M) org detect s =
     (r, s1)"
    by (cases "setting_add_or_update M
       [get_banner_key M (effective_id u message_id) \<mapsto> entry] (USER_SCOPE_HOST M) org detect s")
  have w': "setting_add_or_update (traced M)
              [get_banner_key (traced M) (effective_id u message_id) \<mapsto>
                 entry_with (Some (PyStr message)) (map_option PyStr banner_type)
                   (map_option PyStr d)]
              (USER_SCOPE_HOST (traced M)) org detect (s, log) =
            (r, (s1, log @ [Call_setting_add_or_update
                              [get_banner_key M (effective_id u message_id) \<mapsto> entry]
                              (USER_SCOPE_HOST M) org detect]))"
    using w by (simp add: entry_def)
  show ?thesis
    using banner_add_run [OF assms w'] by auto
qed

text \<open>The calls of each command leave the log of well-shaped writes well shaped.\<close>

lemma writes_banner_shaped_simps [simp]:
  "writes_banner_shaped (Call_setting_list sc k org detect)"
  "writes_banner_shaped (Call_setting_remove k sc org detect)"
  "writes_banner_shaped (Call_setting_add_or_update [k \<mapsto> e] sc org detect) = banner_shaped e"
  by (simp_all add: writes_banner_shaped_def)

lemma banner_shaped_upd [simp]:
  "banner_shaped Map.empty"
  "banner_shaped e \<Longrightarrow> banner_shaped (e(''message'' \<mapsto> v))"
  "banner_shaped e \<Longrightarrow> banner_shaped (e(''level'' \<mapsto> v))"
  "banner_shaped e \<Longrightarrow> banner_shaped (e(''expirationDate'' \<mapsto> v))"
  by (auto simp: banner_shaped_def)

lemma shaped_list:
  "list_all writes_banner_shaped log \<Longrightarrow>
   list_all writes_banner_shaped (snd (snd (banner_list (traced M) org detect (s, log))))"
  by (simp add: banner_list_def split: prod.splits)

lemma shaped_show:
  "list_all writes_banner_shaped log \<Longrightarrow>
   list_all writes_banner_shaped (snd (snd (banner_show (traced M) i org detect (s, log))))"
  by (auto simp add: banner_show_def split: prod.splits sum.splits option.splits)

lemma shaped_remove:
  "list_all writes_banner_shaped log \<Longrightarrow>
   list_all writes_banner_shaped (snd (snd (banner_remove (traced M) i org detect (s, log))))"
  by (auto simp add: banner_remove_def Let_def split: prod.splits)

lemma shaped_add:
  "list_all writes_banner_shaped log \<Longrightarrow>
   list_all writes_banner_shaped
     (snd (snd (banner_add (traced M) conv u message banner_type message_id expiration
                  org detect (s, log))))"
  by (auto simp add: banner_add_def Let_def split: prod.splits sum.splits option.splits)

lemma shaped_update:
  "list_all writes_banner_shaped log \<Longrightarrow>
   list_all writes_banner_shaped
     (snd (snd (banner_update (traced M) conv message banner_type message_id expiration
                  org detect (s, log))))"
  by (auto simp add: banner_update_def Let_def split: prod.splits sum.splits option.splits)

text \<open>The identifier: its length, and when two of them coincide.\<close>

lemma length_hex032 [simp]: "length (hex032 w) = 32"
  by (simp add: hex032_def)

lemma length_uuid_str: "length (uuid_str w) = 36"
  by (simp add: uuid_str_def Let_def)

lemma hex032_eq_uuid_str:
  assumes "uuid_str a = uuid_str b"
  shows "hex032 a = hex032 b"
proof -
  have d: "xs = take 8 xs @ take 4 (drop 8 xs) @ take 4 (drop 12 xs)
         @ take 4 (drop 16 xs) @ drop 20 xs" for xs :: string
  proof -
    have "take 4 (drop 16 xs) @ drop 20 xs = drop 16 xs"
      using append_take_drop_id [of 4 "drop 16 xs"] by simp
    moreover have "take 4 (drop 12 xs) @ drop 16 xs = drop 12 xs"
      using append_take_drop_id [of 4 "drop 12 xs"] by simp
    moreover have "take 4 (drop 8 xs) @ drop 12 xs = drop 8 xs"
      using append_take_drop_id [of 4 "drop 8 xs"] by simp
    ultimately show ?thesis by simp
  qed
  from assms have "take 8 (hex032 a) = take 8 (hex032 b)
     \<and> take 4 (drop 8 (hex032 a)) = take 4 (drop 8 (hex032 b))
     \<and> take 4 (drop 12 (hex032 a)) = take 4 (drop 12 (hex032 b))
     \<and> take 4 (drop 16 (hex032 a)) = take 4 (drop 16 (hex032 b))
     \<and> drop 20 (hex032 a) = drop 20 (hex032 b)"
    by (simp add: uuid_str_def Let_def)
  then show ?thesis using d [of "hex032 a"] d [of "hex032 b"] by simp
qed

lemma hex_digit_inj: "m < 16 \<Longrightarrow> n < 16 \<Longrightarrow> hex_digit m = hex_digit n \<Longrightarrow> m = n"
  unfolding hex_digit_def
  by (subst (asm) nth_eq_iff_index_eq) simp_all

lemma nibble_bit:
  "bit (drop_bit k w AND (0xf :: 128 word)) j \<longleftrightarrow> j < 4 \<and> bit w (k + j)"
proof -
  have m: "(0xf :: 128 word) = mask 4" by (simp add: mask_eq_exp_minus_1)
  have "bit (drop_bit k w AND (mask 4 :: 128 word)) j \<longleftrightarrow> j < 4 \<and> bit w (k + j)"
    by (auto simp: bit_simps)
  then show ?thesis by (simp only: m)
qed

lemma nibble_less: "unat (drop_bit k w AND (0xf :: 128 word)) < 16"
proof -
  have "drop_bit k w AND (0xf :: 128 word) \<le> 0xf" by (rule word_and_le1)
  then show ?thesis by (simp add: word_le_nat_alt)
qed

lemma hex032_inj:
  assumes h: "hex032 a = hex032 b"
  shows "a = b"
proof (rule bit_word_eqI)
  fix n assume n: "n < LENGTH(128)"
  define i where "i = 31 - n div 4"
  have i: "i < 32" "4 * (31 - i) = 4 * (n div 4)" using n by (auto simp: i_def)
  from h have "\<forall>i\<in>set [0..<32]. hex_digit (unat (drop_bit (4 * (31 - i)) a AND 0xf)) =
                 hex_digit (unat (drop_bit (4 * (31 - i)) b AND 0xf))"
    unfolding hex032_def map_eq_conv .
  moreover have "i \<in> set [0..<32]" using i(1) by simp
  ultimately have "hex_digit (unat (drop_bit (4 * (31 - i)) a AND 0xf)) =
                   hex_digit (unat (drop_bit (4 * (31 - i)) b AND 0xf))"
    by (rule bspec)
  then have "hex_digit (unat (drop_bit (4 * (n div 4)) a AND 0xf)) =
               hex_digit (unat (drop_bit (4 * (n div 4)) b AND 0xf))"
    by (simp only: i(2))
  then have "unat (drop_bit (4 * (n div 4)) a AND 0xf) = unat (drop_bit (4 * (n div 4)) b AND 0xf)"
    by (rule hex_digit_inj [OF nibble_less nibble_less])
  then have e: "drop_bit (4 * (n div 4)) a AND 0xf = drop_bit (4 * (n div 4)) b AND 0xf"
    by (simp only: word_unat_eq_iff)
  have "bit a n = bit (drop_bit (4 * (n div 4)) a AND 0xf) (n mod 4)"
    by (simp add: nibble_bit)
  also have "\<dots> = bit (drop_bit (4 * (n div 4)) b AND 0xf) (n mod 4)"
    by (simp only: e)
  also have "\<dots> = bit b n"
    by (simp add: nibble_bit)
  finally show "bit a n = bit b n" .
qed

lemma uuid_str_inj: "uuid_str a = uuid_str b \<longleftrightarrow> a = b"
  using hex032_inj hex032_eq_uuid_str by blast

lemma set_fields_alt:
  fixes r :: "128 word"
  assumes "c2 AND NOT c3 = c2"
  shows "(((r AND NOT c1) OR c2) AND NOT c3) OR c4 = (r AND NOT (c1 OR c3)) OR (c2 OR c4)"
proof -
  have "((r AND NOT c1) OR c2) AND NOT c3 = ((r AND NOT c1) AND NOT c3) OR (c2 AND NOT c3)"
    by (simp add: bit.conj_disj_distrib2)
  also have "(r AND NOT c1) AND NOT c3 = r AND NOT (c1 OR c3)"
    by (simp add: and.assoc)
  finally show ?thesis by (simp add: assms or.assoc)
qed

lemma uuid4_alt: "uuid4 r = (r AND uuid4_random_bits) OR (push_bit 48 0x8000 OR push_bit 76 4)"
  unfolding uuid4_def uuid4_random_bits_def
  by (rule set_fields_alt) simp

lemma uuid4_eq_iff:
  "uuid4 r = uuid4 r' \<longleftrightarrow> r AND uuid4_random_bits = r' AND uuid4_random_bits"
proof
  assume "uuid4 r = uuid4 r'"
  then have "uuid4 r AND uuid4_random_bits = uuid4 r' AND uuid4_random_bits" by simp
  moreover have "uuid4 x AND uuid4_random_bits = x AND uuid4_random_bits" for x
    unfolding uuid4_alt
    by (simp add: bit.conj_disj_distrib2 uuid4_random_bits_def)
  ultimately show "r AND uuid4_random_bits = r' AND uuid4_random_bits" by simp
next
  assume "r AND uuid4_random_bits = r' AND uuid4_random_bits"
  then show "uuid4 r = uuid4 r'" by (simp add: uuid4_alt)
qed

lemma generated_id_eq_iff:
  "uuid_str (uuid4 r) = uuid_str (uuid4 r') \<longleftrightarrow>
     r AND uuid4_random_bits = r' AND uuid4_random_bits"
  by (simp add: uuid_str_inj uuid4_eq_iff)

text \<open>The draws that give the same identifier as a given one: 64 of them.\<close>

lemma random_bits_alt:
  "uuid4_random_bits = NOT (push_bit 62 (mask 2) OR push_bit 76 (mask 4))"
  by (simp add: uuid4_random_bits_def mask_eq_exp_minus_1)

lemma bit_random_bits:
  "bit uuid4_random_bits n \<longleftrightarrow> n < 128 \<and> \<not> (62 \<le> n \<and> n < 64) \<and> \<not> (76 \<le> n \<and> n < 80)"
  unfolding random_bits_alt
  by (auto simp: bit_simps)

lemma small_bit:
  fixes a :: nat
  assumes "a < 2 ^ m" and "bit a j"
  shows "j < m"
proof -
  have "take_bit m a = a" using assms(1) by (simp add: take_bit_nat_eq_self)
  then have "bit (take_bit m a) j" using assms(2) by simp
  then show ?thesis by (simp only: bit_take_bit_iff)
qed

lemma bit_push_small:
  fixes a :: nat
  assumes "a < 2 ^ m" "k + m \<le> 128"
  shows "bit (push_bit k (word_of_nat a :: 128 word)) n \<longleftrightarrow> k \<le> n \<and> n < k + m \<and> bit a (n - k)"
proof -
  have "bit (push_bit k (word_of_nat a :: 128 word)) n \<longleftrightarrow> k \<le> n \<and> n < 128 \<and> bit a (n - k)"
    by (auto simp: bit_push_bit_iff bit_of_nat_iff)
  moreover have "bit a (n - k) \<Longrightarrow> n - k < m"
    using small_bit [OF assms(1)] by simp
  ultimately show ?thesis using assms(2) by auto
qed


lemma bit_refill:
  assumes "a < 4" "b < 16"
  shows "bit (refill r (a, b)) n \<longleftrightarrow>
           (if 62 \<le> n \<and> n < 64 then bit a (n - 62)
            else if 76 \<le> n \<and> n < 80 then bit b (n - 76)
            else bit r n)"
proof -
  have a: "bit (push_bit 62 (word_of_nat a :: 128 word)) n \<longleftrightarrow> 62 \<le> n \<and> n < 64 \<and> bit a (n - 62)"
    using bit_push_small [of a 2 62 n] assms by simp
  have b: "bit (push_bit 76 (word_of_nat b :: 128 word)) n \<longleftrightarrow> 76 \<le> n \<and> n < 80 \<and> bit b (n - 76)"
    using bit_push_small [of b 4 76 n] assms by simp
  have r: "bit r n \<Longrightarrow> n < 128"
    using bit_imp_le_length [of r n] by simp
  have "bit (refill r (a, b)) n \<longleftrightarrow>
          bit r n \<and> bit uuid4_random_bits n
          \<or> bit (push_bit 62 (word_of_nat a :: 128 word)) n
          \<or> bit (push_bit 76 (word_of_nat b :: 128 word)) n"
    by (simp add: refill_def bit_or_iff bit_and_iff)
  also have "\<dots> \<longleftrightarrow> (if 62 \<le> n \<and> n < 64 then bit a (n - 62)
            else if 76 \<le> n \<and> n < 80 then bit b (n - 76)
            else bit r n)"
    unfolding a b bit_random_bits using r by auto
  finally show ?thesis .
qed


lemma refill_inj:
  assumes "a < 4" "b < 16" "a' < 4" "b' < 16" "refill r (a, b) = refill r (a', b')"
  shows "a = a' \<and> b = b'"
proof -
  have e: "bit (refill r (a, b)) n = bit (refill r (a', b')) n" for n
    by (simp only: assms(5))
  have "bit a j = bit a' j" for j
  proof (cases "j < 2")
    case True
    have "bit (refill r (a, b)) (62 + j) = bit a j"
      using True by (simp add: bit_refill [OF assms(1,2)])
    moreover have "bit (refill r (a', b')) (62 + j) = bit a' j"
      using True by (simp add: bit_refill [OF assms(3,4)])
    ultimately show ?thesis using e [of "62 + j"] by simp
  next
    case False
    then show ?thesis
      using small_bit [of a 2 j] small_bit [of a' 2 j] assms(1,3) by auto
  qed
  then have "a = a'" by (simp add: bit_eq_iff)
  have "bit b j = bit b' j" for j
  proof (cases "j < 4")
    case True
    have "bit (refill r (a, b)) (76 + j) = bit b j"
      using True by (simp add: bit_refill [OF assms(1,2)])
    moreover have "bit (refill r (a', b')) (76 + j) = bit b' j"
      using True by (simp add: bit_refill [OF assms(3,4)])
    ultimately show ?thesis using e [of "76 + j"] by simp
  next
    case False
    then show ?thesis
      using small_bit [of b 4 j] small_bit [of b' 4 j] assms(2,4) by auto
  qed
  then have "b = b'" by (simp add: bit_eq_iff)
  with \<open>a = a'\<close> show ?thesis by simp
qed

lemma fiber_eq:
  "{r'. r' AND uuid4_random_bits = r AND uuid4_random_bits} = refill r ` ({..<4} \<times> {..<16})"
proof (intro set_eqI iffI)
  fix x assume "x \<in> refill r ` ({..<4} \<times> {..<16})"
  then obtain a b where ab: "a < 4" "b < 16" "x = refill r (a, b)" by auto
  have "bit (refill r (a, b) AND uuid4_random_bits) n = bit (r AND uuid4_random_bits) n" for n
    unfolding bit_and_iff bit_refill [OF ab(1,2)] bit_random_bits by auto
  then have "x AND uuid4_random_bits = r AND uuid4_random_bits"
    unfolding ab(3) by (simp add: bit_eq_iff)
  then show "x \<in> {r'. r' AND uuid4_random_bits = r AND uuid4_random_bits}" by simp
next
  fix x assume "x \<in> {r'. r' AND uuid4_random_bits = r AND uuid4_random_bits}"
  then have x: "x AND uuid4_random_bits = r AND uuid4_random_bits" by simp
  define a where "a = unat (take_bit 2 (drop_bit 62 x))"
  define b where "b = unat (take_bit 4 (drop_bit 76 x))"
  have ba: "bit a j \<longleftrightarrow> j < 2 \<and> bit x (62 + j)" for j
    unfolding a_def by (auto simp: bit_unsigned_iff bit_take_bit_iff bit_drop_bit_eq)
  have bb: "bit b j \<longleftrightarrow> j < 4 \<and> bit x (76 + j)" for j
    unfolding b_def by (auto simp: bit_unsigned_iff bit_take_bit_iff bit_drop_bit_eq)
  have "take_bit 2 a = a" by (rule bit_eqI) (auto simp: bit_take_bit_iff ba)
  then have a: "a < 4" using take_bit_nat_less_exp [of 2 a] by simp
  have "take_bit 4 b = b" by (rule bit_eqI) (auto simp: bit_take_bit_iff bb)
  then have b: "b < 16" using take_bit_nat_less_exp [of 4 b] by simp
  have xr: "bit x n = bit r n" if "\<not> (62 \<le> n \<and> n < 64)" "\<not> (76 \<le> n \<and> n < 80)" for n
  proof -
    have "bit (x AND uuid4_random_bits) n = bit (r AND uuid4_random_bits) n"
      by (simp only: x)
    then show ?thesis
      using that bit_imp_le_length [of x n] bit_imp_le_length [of r n]
      by (auto simp: bit_and_iff bit_random_bits)
  qed
  have "bit x n = bit (refill r (a, b)) n" for n
    unfolding bit_refill [OF a b] ba bb using xr [of n] by auto
  then have "x = refill r (a, b)" by (simp add: bit_eq_iff)
  then show "x \<in> refill r ` ({..<4} \<times> {..<16})" using a b by auto
qed

lemma fiber_card:
  "card {r'. r' AND uuid4_random_bits = r AND uuid4_random_bits} = 64"
proof -
  have "inj_on (refill r) ({..<4} \<times> {..<16})"
    by (rule inj_onI) (auto dest: refill_inj)
  then have "card (refill r ` ({..<4} \<times> {..<16})) = card (({..<4} \<times> {..<16}) :: (nat \<times> nat) set)"
    by (rule card_image)
  then show ?thesis by (simp add: fiber_eq)
qed

lemma fst_except_Inl: "fst (except_VstsServiceError (Inl e, s)) \<noteq> Inr v"
  by (cases e) simp_all

lemma banner_add_returns:
  assumes "fst (banner_add M conv u message banner_type message_id expiration org detect s) = Inr res"
  shows "\<exists>entry. res = [effective_id u message_id \<mapsto> entry]"
proof (cases "normalized conv expiration")
  case (Inl ex)
  then have "(case expiration of
            Some e \<Rightarrow> map_sum id Some (conv e ''expiration'')
          | None \<Rightarrow> Inr None) = Inl ex"
    by (auto simp: normalized_def split: option.splits sum.splits)
  then have "banner_add M conv u message banner_type message_id expiration org detect s =
             except_VstsServiceError (Inl ex, s)"
    by (simp add: banner_add_def)
  with assms show ?thesis by (simp add: fst_except_Inl)
next
  case (Inr d)
  obtain r s1 where w: "setting_add_or_update M
           [get_banner_key M (effective_id u message_id) \<mapsto>
              entry_with (Some (PyStr message)) (map_option PyStr banner_type) (map_option PyStr d)]
           (USER_SCOPE_HOST M) org detect s = (r, s1)"
    by (cases "setting_add_or_update M
           [get_banner_key M (effective_id u message_id) \<mapsto>
              entry_with (Some (PyStr message)) (map_option PyStr banner_type) (map_option PyStr d)]
           (USER_SCOPE_HOST M) org detect s")
  show ?thesis
    using assms unfolding banner_add_run [OF Inr w]
    by (cases r) (auto simp: fst_except_Inl)
qed

subsection \<open>The claims\<close>

text \<open>
  C1. The claim says that the entry an update writes gives each of \<^verbatim>\<open>message\<close>,
  \<^verbatim>\<open>level\<close> and \<^verbatim>\<open>expirationDate\<close> the supplied value, else the stored value, else
  leaves the field out. For \<^verbatim>\<open>level\<close> and \<^verbatim>\<open>expirationDate\<close> the code does that
  (lemma \<open>banner_update_run\<close>). For \<^verbatim>\<open>message\<close> it does not: the dict literal it starts
  from is \<^verbatim>\<open>{"message": message}\<close>, so when no message is supplied and the stored entry
  has none, the entry written and returned holds \<^verbatim>\<open>None\<close> under \<^verbatim>\<open>message\<close>. Below,
  the stored entry \<^verbatim>\<open>b0\<close> is \<^verbatim>\<open>{"level": "info"}\<close> and the update supplies only the
  level \<^verbatim>\<open>error\<close>: the code reads the listing, then writes and returns
  \<^verbatim>\<open>{"message": None, "level": "error"}\<close>.
\<close>

theorem banner_update_level_only_writes_None_message:
  "fst (banner_update (traced (spec_setting ''Banners'')) sample_normalizer
          None (Some ''error'') ''b0'' None None None (sample_store, [])) =
     Inr [''b0'' \<mapsto> [''message'' \<mapsto> PyNone, ''level'' \<mapsto> PyStr ''error'']]
   \<and> snd (snd (banner_update (traced (spec_setting ''Banners'')) sample_normalizer
          None (Some ''error'') ''b0'' None None None (sample_store, []))) =
     [Call_setting_list ''host'' ''Banners'' None None,
      Call_setting_add_or_update
        [''Banners/b0'' \<mapsto> [''message'' \<mapsto> PyNone, ''level'' \<mapsto> PyStr ''error'']]
        ''host'' None None]
   \<and> sample_store (''host'', ''Banners/b0'') = Some [''level'' \<mapsto> PyStr ''info'']"
  by (simp add: banner_update_def sample_store_def spec_setting_def get_banner_key_def py_of_def
        Let_def)

text \<open>
  C2. An update call with \<^verbatim>\<open>message\<close>, \<^verbatim>\<open>banner_type\<close> and \<^verbatim>\<open>expiration\<close> all
  omitted raises a \<^verbatim>\<open>ValueError\<close> whose message names the three flags \<^verbatim>\<open>--message\<close>,
  \<^verbatim>\<open>--type\<close> and \<^verbatim>\<open>--expiration\<close>. It does so whatever the service holds and would
  answer, and without a single call of the settings module: the log of calls and the
  service's state are as they were.
\<close>

theorem banner_update_no_fields:
  "banner_update (traced M) conv None None message_id None org detect (s, log) =
     (Inl (ValueError
        ''At least one of the following arguments need to be supplied: --message, --type, --expiration.''),
      (s, log))"
  by (simp add: banner_update_def)

text \<open>
  C3. An update call that supplies at least one of the three optional fields, with an
  expiration (if any) that the normalizer parses, and whose id is not a key of the listing
  the service returns, raises the \<^verbatim>\<open>ValueError\<close> "The following banner was not found"
  followed by the id. The only call it has made is the read of the listing: no write.
\<close>

theorem banner_update_not_found:
  assumes "message \<noteq> None \<or> banner_type \<noteq> None \<or> expiration \<noteq> None"
    and "normalized conv expiration = Inr expiration_iso8601"
    and "setting_list M ''host'' (GLOBAL_MESSAGE_BANNERS_KEY M) org detect s =
           (Inr existing_entries, s1)"
    and "existing_entries message_id = None"
  shows "banner_update (traced M) conv message banner_type message_id expiration org detect
           (s, log) =
           (Inl (ValueError (''The following banner was not found: '' @ message_id)),
            (s1, log @ [Call_setting_list ''host'' (GLOBAL_MESSAGE_BANNERS_KEY M) org detect]))"
proof -
  have l: "setting_list (traced M) ''host'' (GLOBAL_MESSAGE_BANNERS_KEY (traced M)) org detect
          (s, log) =
        (Inr existing_entries,
         (s1, log @ [Call_setting_list ''host'' (GLOBAL_MESSAGE_BANNERS_KEY M) org detect]))"
    using assms(3) by simp
  show ?thesis
    by (rule banner_update_absent [OF assms(1,2) l assms(4)])
qed

theorem banner_update_not_found_witness:
  "banner_update (traced (spec_setting ''Banners'')) sample_normalizer
      (Some ''Maintenance complete'') None ''m2'' (Some ''2030-01-01'') None None
      (sample_store, []) =
     (Inl (ValueError ''The following banner was not found: m2''),
      (sample_store, [Call_setting_list ''host'' ''Banners'' None None]))"
proof -
  have 1: "Some ''Maintenance complete'' \<noteq> None \<or> (None :: string option) \<noteq> None
             \<or> Some ''2030-01-01'' \<noteq> None"
    by simp
  have 2: "normalized sample_normalizer (Some ''2030-01-01'') = Inr (Some ''2030-01-01T00:00:00'')"
    by (simp add: normalized_def sample_normalizer_def)
  have 3: "setting_list (spec_setting ''Banners'') ''host''
             (GLOBAL_MESSAGE_BANNERS_KEY (spec_setting ''Banners'')) None None sample_store =
           (Inr (\<lambda>sub. sample_store (''host'', ''Banners'' @ ''/'' @ sub)), sample_store)"
    by simp
  have 4: "(\<lambda>sub. sample_store (''host'', ''Banners'' @ ''/'' @ sub)) ''m2'' = None"
    by (simp add: sample_store_def)
  show ?thesis
    using banner_update_not_found [OF 1 2 3 4, of "[]"] by simp
qed

text \<open>
  C4. When the expiration is supplied and the normalizer raises its \<^verbatim>\<open>ValueError\<close> on
  it, both \<^verbatim>\<open>banner_add\<close> and \<^verbatim>\<open>banner_update\<close> raise that error; no call of the
  settings module has been made, so the service's state is unchanged.
\<close>

theorem unparseable_expiration_fails_first:
  assumes "conv e ''expiration'' = Inl (ValueError m)"
  shows "banner_add (traced M) conv u message banner_type message_id (Some e) org detect (s, log) =
           (Inl (ValueError m), (s, log))
       \<and> banner_update (traced M) conv message' banner_type' message_id' (Some e) org detect
           (s, log) =
           (Inl (ValueError m), (s, log))"
  using assms by (simp add: banner_add_def banner_update_def)

theorem unparseable_expiration_fails_first_witness:
  "banner_add (traced (spec_setting ''Banners'')) sample_normalizer (uuid_str (uuid4 0))
      ''hello'' None (Some ''m1'') (Some ''next week'') None None (sample_store, []) =
     (Inl (ValueError ''The --expiration argument is not a date.''), (sample_store, []))
   \<and> banner_update (traced (spec_setting ''Banners'')) sample_normalizer
      (Some ''hello'') None ''m1'' (Some ''next week'') None None (sample_store, []) =
     (Inl (ValueError ''The --expiration argument is not a date.''), (sample_store, []))"
proof -
  have 1: "sample_normalizer ''next week'' ''expiration'' =
             Inl (ValueError ''The --expiration argument is not a date.'')"
    by (simp add: sample_normalizer_def)
  show ?thesis
    using unparseable_expiration_fails_first
            [where conv = sample_normalizer and e = "''next week''"
               and M = "spec_setting ''Banners''" and s = sample_store and log = "[]"
               and u = "uuid_str (uuid4 0)" and message = "''hello''" and banner_type = None
               and message_id = "Some ''m1''" and org = None and detect = None
               and message' = "Some ''hello''" and banner_type' = None and message_id' = "''m1''",
             OF 1]
    by simp
qed

text \<open>
  C5. An add call whose expiration (if any) parses makes exactly one call of the settings
  module, with no read before it: a write, at \<^verbatim>\<open>USER_SCOPE_HOST\<close>, of one entry under the
  key \<^verbatim>\<open>GLOBAL_MESSAGE_BANNERS_KEY + '/' + id\<close>, where the id is the one supplied or the
  generated one. That entry has \<^verbatim>\<open>message\<close>, has \<^verbatim>\<open>level\<close> exactly when a banner
  type was supplied, has \<^verbatim>\<open>expirationDate\<close> (the normalized expiration) exactly when an
  expiration was supplied, and has no other key. When the write returns, the command
  returns the mapping from the id to that same entry.
\<close>

theorem banner_add_writes_entry:
  assumes "normalized conv expiration = Inr d"
    and "entry = entry_with (Some (PyStr message)) (map_option PyStr banner_type)
                   (map_option PyStr d)"
    and "key = GLOBAL_MESSAGE_BANNERS_KEY M @ ''/'' @ effective_id u message_id"
    and "setting_add_or_update M [key \<mapsto> entry] (USER_SCOPE_HOST M) org detect s = (r, s1)"
  shows "snd (banner_add (traced M) conv u message banner_type message_id expiration org detect
                (s, log)) =
           (s1, log @ [Call_setting_add_or_update [key \<mapsto> entry] (USER_SCOPE_HOST M) org detect])
       \<and> (r = Inr () \<longrightarrow>
            fst (banner_add (traced M) conv u message banner_type message_id expiration org detect
                   (s, log)) =
              Inr [effective_id u message_id \<mapsto> entry])
       \<and> entry ''message'' = Some (PyStr message)
       \<and> entry ''level'' = map_option PyStr banner_type
       \<and> entry ''expirationDate'' = map_option PyStr d
       \<and> dom entry \<subseteq> {''message'', ''level'', ''expirationDate''}
       \<and> (''level'' \<in> dom entry) = (banner_type \<noteq> None)
       \<and> (''expirationDate'' \<in> dom entry) = (expiration \<noteq> None)"
proof -
  have w: "setting_add_or_update (traced M)
             [get_banner_key (traced M) (effective_id u message_id) \<mapsto>
                entry_with (Some (PyStr message)) (map_option PyStr banner_type)
                  (map_option PyStr d)]
             (USER_SCOPE_HOST (traced M)) org detect (s, log) =
           (r, (s1, log @ [Call_setting_add_or_update [key \<mapsto> entry] (USER_SCOPE_HOST M)
                             org detect]))"
    using assms(2,3,4) by (simp add: get_banner_key_def)
  have x: "(d \<noteq> None) = (expiration \<noteq> None)"
    using normalized_inline(2) [OF assms(1)] by simp
  show ?thesis
    using banner_add_run [OF assms(1) w] x
      banner_shaped_entry_with [of "Some (PyStr message)" "map_option PyStr banner_type"
        "map_option PyStr d"]
    by (auto simp: assms(2) banner_shaped_def domIff)
qed

theorem banner_add_writes_entry_witness:
  "snd (snd (banner_add (traced (spec_setting ''Banners'')) sample_normalizer (uuid_str (uuid4 0))
          ''System maintenance at 10pm'' (Some ''warning'') (Some ''m1'') (Some ''2030-01-01'')
          None None (Map.empty, []))) =
     [Call_setting_add_or_update
        [''Banners/m1'' \<mapsto>
           [''message'' \<mapsto> PyStr ''System maintenance at 10pm'', ''level'' \<mapsto> PyStr ''warning'',
            ''expirationDate'' \<mapsto> PyStr ''2030-01-01T00:00:00'']]
        ''host'' None None]
   \<and> fst (banner_add (traced (spec_setting ''Banners'')) sample_normalizer (uuid_str (uuid4 0))
          ''System maintenance at 10pm'' (Some ''warning'') (Some ''m1'') (Some ''2030-01-01'')
          None None (Map.empty, [])) =
     Inr [''m1'' \<mapsto>
           [''message'' \<mapsto> PyStr ''System maintenance at 10pm'', ''level'' \<mapsto> PyStr ''warning'',
            ''expirationDate'' \<mapsto> PyStr ''2030-01-01T00:00:00'']]"
proof -
  define entry :: entry where
    "entry = [''message'' \<mapsto> PyStr ''System maintenance at 10pm'', ''level'' \<mapsto> PyStr ''warning'',
              ''expirationDate'' \<mapsto> PyStr ''2030-01-01T00:00:00'']"
  have 1: "normalized sample_normalizer (Some ''2030-01-01'') = Inr (Some ''2030-01-01T00:00:00'')"
    by (simp add: normalized_def sample_normalizer_def)
  have 2: "entry = entry_with (Some (PyStr ''System maintenance at 10pm''))
                     (map_option PyStr (Some ''warning''))
                     (map_option PyStr (Some ''2030-01-01T00:00:00''))"
    by (simp add: entry_def entry_with_eq)
  have 3: "''Banners/m1'' = GLOBAL_MESSAGE_BANNERS_KEY (spec_setting ''Banners'') @ ''/'' @
             effective_id (uuid_str (uuid4 0)) (Some ''m1'')"
    by (simp add: effective_id_def)
  obtain st1 where 4: "setting_add_or_update (spec_setting ''Banners'') [''Banners/m1'' \<mapsto> entry]
             (USER_SCOPE_HOST (spec_setting ''Banners'')) None None Map.empty = (Inr (), st1)"
    by (simp add: spec_setting_def)
  show ?thesis
    using banner_add_writes_entry [OF 1 2 3 4, of "[]"]
    by (simp add: entry_def effective_id_def)
qed

text \<open>
  C6. When an add call returns and its id argument was omitted or empty, the id it returns
  is the generated one, \<^verbatim>\<open>str(uuid.uuid4())\<close>, which has 36 characters and so is not
  empty; when a non-empty id was supplied, the id returned is that one. Two calls that
  both generate their id return the same id exactly when their two 128-bit random draws agree
  on every one of the 122 bits that \<^verbatim>\<open>uuid4\<close> keeps (\<open>uuid4_random_bits\<close>). Of the
  \<open>2 ^ 128\<close> possible draws, exactly \<open>2 ^ 6\<close> give the same id as a given draw: a second,
  independent uniform draw collides with chance \<open>2 ^ 6 / 2 ^ 128\<close>, one in \<open>2 ^ 122\<close>.
\<close>

theorem banner_add_identifier:
  assumes "fst (banner_add M conv (uuid_str (uuid4 random)) message banner_type message_id
                  expiration org detect s) = Inr res"
    and "fst (banner_add M conv' (uuid_str (uuid4 random')) message' banner_type' message_id'
                  expiration' org' detect' s') = Inr res'"
  shows "(message_id = None \<or> message_id = Some [] \<longrightarrow> dom res = {uuid_str (uuid4 random)})
       \<and> (\<forall>i. message_id = Some i \<and> i \<noteq> [] \<longrightarrow> dom res = {i})
       \<and> uuid_str (uuid4 random) \<noteq> []
       \<and> length (uuid_str (uuid4 random)) = 36
       \<and> ((message_id = None \<or> message_id = Some [])
            \<and> (message_id' = None \<or> message_id' = Some []) \<longrightarrow>
            (dom res = dom res') =
              (random AND uuid4_random_bits = random' AND uuid4_random_bits))
       \<and> card {r. uuid_str (uuid4 r) = uuid_str (uuid4 random)} = 2 ^ 6
       \<and> card (UNIV :: 128 word set) = 2 ^ 128"
proof -
  obtain entry where r: "res = [effective_id (uuid_str (uuid4 random)) message_id \<mapsto> entry]"
    using banner_add_returns [OF assms(1)] by blast
  obtain entry' where r': "res' = [effective_id (uuid_str (uuid4 random')) message_id' \<mapsto> entry']"
    using banner_add_returns [OF assms(2)] by blast
  have n: "uuid_str (uuid4 random) \<noteq> []"
    using length_uuid_str [of "uuid4 random"] by auto
  have c: "card {r. uuid_str (uuid4 r) = uuid_str (uuid4 random)} = 2 ^ 6"
    using fiber_card [of random] by (simp add: generated_id_eq_iff)
  have u: "card (UNIV :: 128 word set) = 2 ^ 128"
    by (simp add: card_word)
  have "(message_id = None \<or> message_id = Some [] \<longrightarrow> dom res = {uuid_str (uuid4 random)})
       \<and> (\<forall>i. message_id = Some i \<and> i \<noteq> [] \<longrightarrow> dom res = {i})
       \<and> ((message_id = None \<or> message_id = Some [])
            \<and> (message_id' = None \<or> message_id' = Some []) \<longrightarrow>
            (dom res = dom res') =
              (random AND uuid4_random_bits = random' AND uuid4_random_bits))"
    using generated_id_eq_iff [of random random']
    by (auto simp: r r' effective_id_def)
  with n length_uuid_str [of "uuid4 random"] c u show ?thesis
    by blast
qed

theorem banner_add_identifier_witness:
  "fst (banner_add (spec_setting ''Banners'') sample_normalizer (uuid_str (uuid4 0))
          ''hello'' None None None None None sample_store) =
     Inr [uuid_str (uuid4 0) \<mapsto> [''message'' \<mapsto> PyStr ''hello'']]
   \<and> fst (banner_add (spec_setting ''Banners'') sample_normalizer (uuid_str (uuid4 1))
          ''hello'' None (Some []) None None None sample_store) =
     Inr [uuid_str (uuid4 1) \<mapsto> [''message'' \<mapsto> PyStr ''hello'']]
   \<and> dom [uuid_str (uuid4 0) \<mapsto> [''message'' \<mapsto> PyStr ''hello'']] = {uuid_str (uuid4 0)}
   \<and> uuid_str (uuid4 0) \<noteq> []
   \<and> length (uuid_str (uuid4 0)) = 36
   \<and> dom [uuid_str (uuid4 0) \<mapsto> [''message'' \<mapsto> PyStr ''hello'']] \<noteq>
       dom [uuid_str (uuid4 1) \<mapsto> [''message'' \<mapsto> PyStr ''hello'']]"
proof -
  have 1: "fst (banner_add (spec_setting ''Banners'') sample_normalizer (uuid_str (uuid4 0))
          ''hello'' None None None None None sample_store) =
     Inr [uuid_str (uuid4 0) \<mapsto> [''message'' \<mapsto> PyStr ''hello'']]"
    by (simp add: banner_add_def spec_setting_def Let_def)
  have 2: "fst (banner_add (spec_setting ''Banners'') sample_normalizer (uuid_str (uuid4 1))
          ''hello'' None (Some []) None None None sample_store) =
     Inr [uuid_str (uuid4 1) \<mapsto> [''message'' \<mapsto> PyStr ''hello'']]"
    by (simp add: banner_add_def spec_setting_def Let_def)
  have 3: "(0 :: 128 word) AND uuid4_random_bits \<noteq> 1 AND uuid4_random_bits"
    by (simp add: uuid4_random_bits_def)
  show ?thesis
    using banner_add_identifier [OF 1 2] 1 2 3 by simp
qed

text \<open>
  C7. A show call makes exactly one call of the settings module, the read of the whole
  listing under \<^verbatim>\<open>GLOBAL_MESSAGE_BANNERS_KEY\<close> at scope \<^verbatim>\<open>host\<close>: no read of a single
  key, no write. When the read returns a listing, the command returns the singleton
  mapping from the id to its value if the id is a key of the listing, and raises the
  \<^verbatim>\<open>ValueError\<close> "The following banner was not found" followed by the id if it is not.
\<close>

theorem banner_show_lookup:
  assumes "setting_list M ''host'' (GLOBAL_MESSAGE_BANNERS_KEY M) org detect s = (r, s1)"
  shows "snd (banner_show (traced M) message_id org detect (s, log)) =
           (s1, log @ [Call_setting_list ''host'' (GLOBAL_MESSAGE_BANNERS_KEY M) org detect])
       \<and> (\<forall>existing_entries. r = Inr existing_entries \<longrightarrow>
            fst (banner_show (traced M) message_id org detect (s, log)) =
              (case existing_entries message_id of
                 None \<Rightarrow> Inl (ValueError (''The following banner was not found: '' @ message_id))
               | Some v \<Rightarrow> Inr [message_id \<mapsto> v]))"
  using assms by (auto simp: banner_show_def split: option.splits sum.splits)

theorem banner_show_lookup_witness:
  "banner_show (traced (spec_setting ''Banners'')) ''m1'' None None (sample_store, []) =
     (Inr [''m1'' \<mapsto> [''message'' \<mapsto> PyStr ''System maintenance at 10pm'',
                       ''level'' \<mapsto> PyStr ''warning'']],
      (sample_store, [Call_setting_list ''host'' ''Banners'' None None]))
   \<and> banner_show (traced (spec_setting ''Banners'')) ''m2'' None None (sample_store, []) =
     (Inl (ValueError ''The following banner was not found: m2''),
      (sample_store, [Call_setting_list ''host'' ''Banners'' None None]))"
proof -
  have 1: "setting_list (spec_setting ''Banners'') ''host''
             (GLOBAL_MESSAGE_BANNERS_KEY (spec_setting ''Banners'')) None None sample_store =
           (Inr (\<lambda>sub. sample_store (''host'', ''Banners'' @ ''/'' @ sub)), sample_store)"
    by simp
  have 2: "(\<lambda>sub. sample_store (''host'', ''Banners'' @ ''/'' @ sub)) ''m1'' =
             Some [''message'' \<mapsto> PyStr ''System maintenance at 10pm'', ''level'' \<mapsto> PyStr ''warning'']"
    by (simp add: sample_store_def)
  have 3: "(\<lambda>sub. sample_store (''host'', ''Banners'' @ ''/'' @ sub)) ''m2'' = None"
    by (simp add: sample_store_def)
  show ?thesis
    using banner_show_lookup [OF 1, of "''m1''" "[]"] banner_show_lookup [OF 1, of "''m2''" "[]"]
      2 3
    by (simp add: prod_eq_iff)
qed

text \<open>
  C8. On the settings service of the spec's contract (\<open>spec_setting\<close>), for every id
  and every state of the store: \<^verbatim>\<open>banner_remove\<close> returns, and \<^verbatim>\<open>banner_show\<close> of the
  same id on the state it leaves raises "The following banner was not found" followed by
  the id.
\<close>

theorem remove_then_show:
  "fst (banner_remove (spec_setting prefix) message_id org detect st) = Inr ()
   \<and> fst (banner_show (spec_setting prefix) message_id org' detect'
           (snd (banner_remove (spec_setting prefix) message_id org detect st))) =
       Inl (ValueError (''The following banner was not found: '' @ message_id))"
  by (simp add: banner_remove_def banner_show_def get_banner_key_def)

theorem remove_then_show_witness:
  "fst (banner_show (spec_setting ''Banners'') ''m1'' None None sample_store) =
     Inr [''m1'' \<mapsto> [''message'' \<mapsto> PyStr ''System maintenance at 10pm'',
                      ''level'' \<mapsto> PyStr ''warning'']]
   \<and> fst (banner_show (spec_setting ''Banners'') ''m1'' None None
           (snd (banner_remove (spec_setting ''Banners'') ''m1'' None None sample_store))) =
     Inl (ValueError ''The following banner was not found: m1'')"
proof -
  have "fst (banner_show (spec_setting ''Banners'') ''m1'' None None sample_store) =
     Inr [''m1'' \<mapsto> [''message'' \<mapsto> PyStr ''System maintenance at 10pm'',
                      ''level'' \<mapsto> PyStr ''warning'']]"
    by (simp add: banner_show_def sample_store_def)
  then show ?thesis
    using remove_then_show [of "''Banners''" "''m1''" None None sample_store None None]
    by simp
qed

text \<open>
  C9. Every value that a command hands to \<^verbatim>\<open>setting_add_or_update\<close> is a mapping whose
  keys are among \<^verbatim>\<open>message\<close>, \<^verbatim>\<open>level\<close> and \<^verbatim>\<open>expirationDate\<close>: if all writes in the
  log have that shape before a command runs, all writes in the log have it afterwards,
  for each of the five commands, whatever the arguments and whatever the service answers.
\<close>

theorem stored_values_banner_shaped:
  assumes "list_all writes_banner_shaped log"
  shows "list_all writes_banner_shaped
           (snd (snd (banner_add (traced M) conv u message banner_type message_id0 expiration
                        org detect (s, log))))
       \<and> list_all writes_banner_shaped
           (snd (snd (banner_update (traced M) conv message' banner_type' message_id expiration'
                        org detect (s, log))))
       \<and> list_all writes_banner_shaped
           (snd (snd (banner_show (traced M) message_id org detect (s, log))))
       \<and> list_all writes_banner_shaped
           (snd (snd (banner_list (traced M) org detect (s, log))))
       \<and> list_all writes_banner_shaped
           (snd (snd (banner_remove (traced M) message_id org detect (s, log))))"
  by (intro conjI shaped_add shaped_update shaped_show shaped_list shaped_remove assms)

theorem stored_values_banner_shaped_witness:
  "list_all writes_banner_shaped
     (snd (snd (banner_add (traced (spec_setting ''Banners'')) sample_normalizer (uuid_str (uuid4 0))
                  ''hello'' (Some ''info'') (Some ''m3'') (Some ''2030-01-01'') None None
                  (sample_store, []))))
   \<and> list_all writes_banner_shaped
     (snd (snd (banner_update (traced (spec_setting ''Banners'')) sample_normalizer
                  None (Some ''error'') ''m1'' None None None (sample_store, []))))
   \<and> snd (snd (banner_update (traced (spec_setting ''Banners'')) sample_normalizer
                  None (Some ''error'') ''m1'' None None None (sample_store, []))) =
       [Call_setting_list ''host'' ''Banners'' None None,
        Call_setting_add_or_update
          [''Banners/m1'' \<mapsto> [''message'' \<mapsto> PyStr ''System maintenance at 10pm'',
                               ''level'' \<mapsto> PyStr ''error'']]
          ''host'' None None]"
proof -
  have 1: "list_all writes_banner_shaped []" by simp
  have 2: "snd (snd (banner_update (traced (spec_setting ''Banners'')) sample_normalizer
                  None (Some ''error'') ''m1'' None None None (sample_store, []))) =
       [Call_setting_list ''host'' ''Banners'' None None,
        Call_setting_add_or_update
          [''Banners/m1'' \<mapsto> [''message'' \<mapsto> PyStr ''System maintenance at 10pm'',
                               ''level'' \<mapsto> PyStr ''error'']]
          ''host'' None None]"
    by (simp add: banner_update_def sample_store_def spec_setting_def get_banner_key_def py_of_def
          Let_def)
  show ?thesis
    using stored_values_banner_shaped [OF 1, where M = "spec_setting ''Banners''"
        and conv = sample_normalizer and u = "uuid_str (uuid4 0)" and message = "''hello''"
        and banner_type = "Some ''info''" and ?message_id0.0 = "Some ''m3''"
        and expiration = "Some ''2030-01-01''" and org = None and detect = None
        and s = sample_store and message' = None and banner_type' = "Some ''error''"
        and message_id = "''m1''" and expiration' = None] 2
    by simp
qed

text \<open>
  C10. For a non-empty id: \<^verbatim>\<open>banner_show\<close> and \<^verbatim>\<open>banner_update\<close> look the entry up in the
  listing under the id itself (what they do depends on the listing's value at the id, and
  a listing without the id gives "not found"), while the write of \<^verbatim>\<open>banner_update\<close>, the
  write of \<^verbatim>\<open>banner_add\<close> and the delete of \<^verbatim>\<open>banner_remove\<close> address the key
  \<^verbatim>\<open>GLOBAL_MESSAGE_BANNERS_KEY + '/' + id\<close>, which is never equal to the id.
\<close>

theorem lookup_key_and_store_key:
  assumes "message_id \<noteq> []"
    and "setting_list M ''host'' (GLOBAL_MESSAGE_BANNERS_KEY M) org detect s =
           (Inr existing_entries, s1)"
    and "message \<noteq> None \<or> banner_type \<noteq> None \<or> expiration \<noteq> None"
    and "normalized conv expiration = Inr d"
    and "key = GLOBAL_MESSAGE_BANNERS_KEY M @ ''/'' @ message_id"
  shows "key \<noteq> message_id
       \<and> fst (banner_show (traced M) message_id org detect (s, log)) =
           (case existing_entries message_id of
              None \<Rightarrow> Inl (ValueError (''The following banner was not found: '' @ message_id))
            | Some v \<Rightarrow> Inr [message_id \<mapsto> v])
       \<and> (case existing_entries message_id of
            None \<Rightarrow>
              banner_update (traced M) conv message banner_type message_id expiration org detect
                (s, log) =
                (Inl (ValueError (''The following banner was not found: '' @ message_id)),
                 (s1, log @ [Call_setting_list ''host'' (GLOBAL_MESSAGE_BANNERS_KEY M) org detect]))
          | Some existing_entry \<Rightarrow>
              (\<exists>entry. snd (snd (banner_update (traced M) conv message banner_type message_id
                                   expiration org detect (s, log))) =
                 log @ [Call_setting_list ''host'' (GLOBAL_MESSAGE_BANNERS_KEY M) org detect,
                        Call_setting_add_or_update [key \<mapsto> entry] (USER_SCOPE_HOST M) org detect]))
       \<and> (\<exists>entry. snd (snd (banner_add (traced M) conv u msg banner_type (Some message_id) expiration
                                org detect (s, log))) =
              log @ [Call_setting_add_or_update [key \<mapsto> entry] (USER_SCOPE_HOST M) org detect])
       \<and> snd (snd (banner_remove (traced M) message_id org detect (s, log))) =
           log @ [Call_setting_remove key ''host'' org detect]"
proof -
  have k: "key = get_banner_key M message_id"
    by (simp add: assms(5) get_banner_key_def)
  have l: "setting_list (traced M) ''host'' (GLOBAL_MESSAGE_BANNERS_KEY (traced M)) org detect
             (s, log) =
           (Inr existing_entries,
            (s1, log @ [Call_setting_list ''host'' (GLOBAL_MESSAGE_BANNERS_KEY M) org detect]))"
    using assms(2) by simp
  have 1: "key \<noteq> message_id"
    unfolding k by (rule get_banner_key_neq)
  have 2: "fst (banner_show (traced M) message_id org detect (s, log)) =
           (case existing_entries message_id of
              None \<Rightarrow> Inl (ValueError (''The following banner was not found: '' @ message_id))
            | Some v \<Rightarrow> Inr [message_id \<mapsto> v])"
    using assms(2) by (auto simp: banner_show_def split: option.splits)
  have 3: "(case existing_entries message_id of
            None \<Rightarrow>
              banner_update (traced M) conv message banner_type message_id expiration org detect
                (s, log) =
                (Inl (ValueError (''The following banner was not found: '' @ message_id)),
                 (s1, log @ [Call_setting_list ''host'' (GLOBAL_MESSAGE_BANNERS_KEY M) org detect]))
          | Some existing_entry \<Rightarrow>
              (\<exists>entry. snd (snd (banner_update (traced M) conv message banner_type message_id
                                   expiration org detect (s, log))) =
                 log @ [Call_setting_list ''host'' (GLOBAL_MESSAGE_BANNERS_KEY M) org detect,
                        Call_setting_add_or_update [key \<mapsto> entry] (USER_SCOPE_HOST M) org detect]))"
  proof (cases "existing_entries message_id")
    case None
    then show ?thesis
      using banner_update_absent [OF assms(3,4) l None] by simp
  next
    case (Some existing_entry)
    then show ?thesis
      using banner_update_log [OF assms(3,4,2) Some, of log] by (simp add: k)
  qed
  have "effective_id u (Some message_id) = message_id"
    using assms(1) by (simp add: effective_id_def)
  then have 4: "\<exists>entry. snd (snd (banner_add (traced M) conv u msg banner_type (Some message_id)
                                expiration org detect (s, log))) =
              log @ [Call_setting_add_or_update [key \<mapsto> entry] (USER_SCOPE_HOST M) org detect]"
    using banner_add_log [OF assms(4), of M u msg banner_type "Some message_id" org detect s log]
    by (simp add: k)
  have 5: "snd (snd (banner_remove (traced M) message_id org detect (s, log))) =
           log @ [Call_setting_remove key ''host'' org detect]"
    by (auto simp: banner_remove_def k Let_def split: prod.splits)
  show ?thesis using 1 2 3 4 5 by blast
qed

theorem lookup_key_and_store_key_witness:
  "''Banners/m1'' \<noteq> ''m1''
   \<and> fst (banner_show (traced (spec_setting ''Banners'')) ''m1'' None None (sample_store, [])) =
       Inr [''m1'' \<mapsto> [''message'' \<mapsto> PyStr ''System maintenance at 10pm'',
                        ''level'' \<mapsto> PyStr ''warning'']]
   \<and> (\<exists>entry. snd (snd (banner_update (traced (spec_setting ''Banners'')) sample_normalizer
                           (Some ''Maintenance complete'') None ''m1'' None None None
                           (sample_store, []))) =
         [Call_setting_list ''host'' ''Banners'' None None,
          Call_setting_add_or_update [''Banners/m1'' \<mapsto> entry] ''host'' None None])
   \<and> (\<exists>entry. snd (snd (banner_add (traced (spec_setting ''Banners'')) sample_normalizer
                           (uuid_str (uuid4 0)) ''hello'' None (Some ''m1'') None None None
                           (sample_store, []))) =
         [Call_setting_add_or_update [''Banners/m1'' \<mapsto> entry] ''host'' None None])
   \<and> snd (snd (banner_remove (traced (spec_setting ''Banners'')) ''m1'' None None
                  (sample_store, []))) =
       [Call_setting_remove ''Banners/m1'' ''host'' None None]"
proof -
  have 1: "''m1'' \<noteq> []" by simp
  have 2: "setting_list (spec_setting ''Banners'') ''host''
             (GLOBAL_MESSAGE_BANNERS_KEY (spec_setting ''Banners'')) None None sample_store =
           (Inr (\<lambda>sub. sample_store (''host'', ''Banners'' @ ''/'' @ sub)), sample_store)"
    by simp
  have 3: "Some ''Maintenance complete'' \<noteq> None \<or> (None :: string option) \<noteq> None
             \<or> (None :: string option) \<noteq> None"
    by simp
  have 4: "normalized sample_normalizer None = Inr None"
    by (simp add: normalized_def)
  have 5: "''Banners/m1'' = GLOBAL_MESSAGE_BANNERS_KEY (spec_setting ''Banners'') @ ''/'' @ ''m1''"
    by simp
  have 6: "(\<lambda>sub. sample_store (''host'', ''Banners'' @ ''/'' @ sub)) ''m1'' =
             Some [''message'' \<mapsto> PyStr ''System maintenance at 10pm'', ''level'' \<mapsto> PyStr ''warning'']"
    by (simp add: sample_store_def)
  show ?thesis
    using lookup_key_and_store_key [OF 1 2 3 4 5, where log = "[]" and u = "uuid_str (uuid4 0)"
        and msg = "''hello''"] 6
    by simp
qed

end
